theory Spec2Isabelle
  imports Main "HOL-Library.Word"
begin

unbundle bit_operations_syntax

section \<open>Data model of rules.h\<close>

text \<open>
  \<open>bitmap\<close> is \<open>unsigned long long\<close>, \<open>square\<close> is \<open>int\<close>. Squares that the code
  computes stay within a few dozen of the range 0..63 before they are used or rejected, so
  \<open>int\<close> is exact for them. The \<open>int half_move_counter\<close> is a 32-bit word read as a
  signed number (\<open>sint\<close>).
\<close>

type_synonym bitmap = "64 word"
type_synonym square = int

definition INVALID_SQUARE :: square where
  "INVALID_SQUARE = -1"

datatype Player = WHITE | BLACK
datatype Piece = KING | QUEEN | ROOK | BISHOP | KNIGHT | PAWN
datatype CastlingVariant = KING_SIDE | QUEEN_SIDE

text \<open>The class \<open>GameState\<close>; \<open>pieces[2][6]\<close> is indexed by player and piece.\<close>

record GameState =
  to_move :: Player
  pieces :: "Player \<Rightarrow> Piece \<Rightarrow> bitmap"
  half_move_counter :: "32 word"
  can_castle_king_side :: "Player \<Rightarrow> bool"
  can_castle_queen_side :: "Player \<Rightarrow> bool"
  en_passant_square :: square

text \<open>
  The three move classes, with the constructor arguments in the order of rules.h:
  \<open>NormalMove(start, finish, piece, to_move, is_capture)\<close>,
  \<open>PromotionMove(start, finish, to_move, promoted_piece)\<close> (a \<open>NormalMove\<close> with piece
  \<open>PAWN\<close> and \<open>is_capture = false\<close>), \<open>CastlingMove(variant, to_move)\<close>.
\<close>

datatype Move =
    NormalMove square square Piece Player bool
  | PromotionMove square square Player Piece
  | CastlingMove CastlingVariant Player

text \<open>\<open>static_cast<Player>(to_move ^ 1)\<close>.\<close>

fun opponent :: "Player \<Rightarrow> Player" where
  "opponent WHITE = BLACK"
| "opponent BLACK = WHITE"

text \<open>The loops \<open>for (int i = 0; i < 6; ++i)\<close> visit the piece kinds in enum order.\<close>

definition all_pieces :: "Piece list" where
  "all_pieces = [KING, QUEEN, ROOK, BISHOP, KNIGHT, PAWN]"

section \<open>Outcomes\<close>

text \<open>
  What a call can do other than return a value:
  \<^item> \<open>AssertionFailure\<close>: an \<open>assert\<close> fails (the file includes \<open>cassert\<close> and
    never defines \<open>NDEBUG\<close>);
  \<^item> \<open>LogicError\<close>: \<open>square_ownership\<close> throws \<open>std::logic_error\<close>;
  \<^item> \<open>ShiftOutOfRange\<close>: \<open>1ULL << n\<close> is evaluated with \<open>n\<close> outside 0..63, for which
    C++ defines no result;
  \<^item> \<open>MissingReturn\<close>: control reaches the closing brace of a function with a non-void
    return type without a \<open>return\<close> statement, so that the caller receives no value;
  \<^item> \<open>SignedOverflow\<close>: \<open>half_move_counter + 1\<close> is evaluated at the largest \<open>int\<close>;
  \<^item> \<open>InvalidPointerRead\<close>: the constructor \<open>GameState(to_move, pieces, ...)\<close> is called
    with a local array \<open>bitmap pieces[2][6]\<close> cast to \<open>bitmap **\<close>. Its
    \<open>std::copy(&pieces[0][0], &pieces[0][0] + 12, ...)\<close> then loads the first element of
    that array, the mask \<open>pieces[WHITE][KING]\<close>, as if it were a pointer, and copies
    twelve masks from the address that mask spells. C++ defines no result for this read;
    every \<open>transform\<close> ends in such a call.

  A terminating function returns \<open>fault + 'a\<close>. A function with a loop that may run
  forever returns \<open>(fault + 'a) option\<close>, where \<open>None\<close> is non-termination.

  The \<open>throw std::runtime_error\<close> that ends \<open>span\<close> is unreachable for the six
  kinds of the enumeration and has no outcome of its own.

  Several functions declare \<open>bitmap span_mask;\<close> without an initialiser and then only
  \<open>|=\<close> into it. The value the variable holds on entry is not determined by the program;
  it is the explicit parameter \<open>u\<close> of those functions and of their callers.
\<close>

datatype fault =
  AssertionFailure | LogicError | ShiftOutOfRange | MissingReturn | SignedOverflow
  | InvalidPointerRead

definition bind_result :: "fault + 'a \<Rightarrow> ('a \<Rightarrow> fault + 'b) \<Rightarrow> fault + 'b" where
  "bind_result m f = (case m of Inl e \<Rightarrow> Inl e | Inr v \<Rightarrow> f v)"

definition bind_outcome ::
  "(fault + 'a) option \<Rightarrow> ('a \<Rightarrow> (fault + 'b) option) \<Rightarrow> (fault + 'b) option" where
  "bind_outcome m f =
     Option.bind m (\<lambda>r. case r of Inl e \<Rightarrow> Some (Inl e) | Inr v \<Rightarrow> f v)"

lemma bind_outcome_mono [partial_function_mono]:
  assumes "mono_option B" and "\<And>y. mono_option (\<lambda>f. C y f)"
  shows "mono_option (\<lambda>f. bind_outcome (B f) (\<lambda>y. C y f))"
  unfolding bind_outcome_def
proof (rule bind_mono [OF assms(1)])
  fix r :: "fault + 'c"
  show "mono_option (\<lambda>f. case r of Inl e \<Rightarrow> Some (Inl e) | Inr v \<Rightarrow> C v f)"
    by (cases r) (simp_all add: assms(2) option.const_mono)
qed

text \<open>\<open>1ULL << n\<close> for an \<open>int\<close> \<open>n\<close>.\<close>

definition shl1 :: "square \<Rightarrow> fault + bitmap" where
  "shl1 n = (if 0 \<le> n \<and> n < 64 then Inr (push_bit (nat n) 1) else Inl ShiftOutOfRange)"

section \<open>Bit primitives\<close>

text \<open>
  \<open>get_lowest_bit\<close>: \<open>lowest_power_of_two = map & (-map)\<close> (the argument \<open>map\<close> is \<open>bm\<close> here), then the loop shifts it right
  and counts until it is zero.
\<close>

function get_lowest_bit_loop :: "bitmap \<Rightarrow> square \<Rightarrow> square" where
  "get_lowest_bit_loop lowest_power_of_two lowest_bit =
     (if lowest_power_of_two > 0
      then get_lowest_bit_loop (drop_bit 1 lowest_power_of_two) (lowest_bit + 1)
      else lowest_bit)"
  by pat_completeness auto
termination
proof (relation "measure (\<lambda>(p, n). unat p)")
  show "wf (measure (\<lambda>(p :: bitmap, n :: square). unat p))" by simp
next
  fix p :: bitmap and n :: square
  assume "0 < p"
  then have "unat p \<noteq> 0" by (simp add: word_greater_zero_iff unat_eq_0)
  then have "unat p div 2 < unat p" by simp
  then show "((drop_bit 1 p, n + 1), (p, n)) \<in> measure (\<lambda>(p, n). unat p)"
    by (simp add: drop_bit_eq_div unat_div)
qed

declare get_lowest_bit_loop.simps [simp del]

definition get_lowest_bit :: "bitmap \<Rightarrow> square" where
  "get_lowest_bit bm = get_lowest_bit_loop (bm AND (- bm)) 0"

definition get_occupancy_map :: "GameState \<Rightarrow> bitmap" where
  "get_occupancy_map s =
     fold (\<lambda>i mask. mask OR (pieces s WHITE i OR pieces s BLACK i)) all_pieces 0"

text \<open>
  \<open>is_occupied\<close> and \<open>square_ownership\<close>: the loop over the six kinds, White's mask
  tested before Black's; the shift \<open>1ULL << query\<close> is evaluated in the first iteration.
\<close>

fun is_occupied_loop :: "GameState \<Rightarrow> bitmap \<Rightarrow> Piece list \<Rightarrow> bool" where
  "is_occupied_loop s b [] = False"
| "is_occupied_loop s b (i # rest) =
     (if pieces s WHITE i AND b \<noteq> 0 then True
      else if pieces s BLACK i AND b \<noteq> 0 then True
      else is_occupied_loop s b rest)"

definition is_occupied :: "GameState \<Rightarrow> square \<Rightarrow> fault + bool" where
  "is_occupied s query = bind_result (shl1 query) (\<lambda>b. Inr (is_occupied_loop s b all_pieces))"

fun square_ownership_loop :: "GameState \<Rightarrow> bitmap \<Rightarrow> Piece list \<Rightarrow> fault + Player" where
  "square_ownership_loop s b [] = Inl LogicError"
| "square_ownership_loop s b (i # rest) =
     (if pieces s WHITE i AND b \<noteq> 0 then Inr WHITE
      else if pieces s BLACK i AND b \<noteq> 0 then Inr BLACK
      else square_ownership_loop s b rest)"

definition square_ownership :: "GameState \<Rightarrow> square \<Rightarrow> fault + Player" where
  "square_ownership s query =
     bind_result (shl1 query) (\<lambda>b. square_ownership_loop s b all_pieces)"

definition get_king_position :: "GameState \<Rightarrow> Player \<Rightarrow> square" where
  "get_king_position s player = get_lowest_bit (pieces s player KING)"

text \<open>\<open>assert(pieces[player][piece_type] & (1ULL << start))\<close>.\<close>

definition assert_piece_on ::
  "GameState \<Rightarrow> Player \<Rightarrow> Piece \<Rightarrow> square \<Rightarrow> fault + unit" where
  "assert_piece_on s player piece_type start =
     bind_result (shl1 start)
       (\<lambda>b. if pieces s player piece_type AND b \<noteq> 0 then Inr () else Inl AssertionFailure)"

section \<open>Geometry: span\<close>

text \<open>
  \<open>span_pawn\<close>. The three updates are \<open>span_mask |= finish\<close>: the \<open>int\<close> \<open>finish\<close>
  is converted to \<open>bitmap\<close> and or-ed in as a number. In the capture test
  \<open>is_occupied(finish) && square_ownership(finish) != player || finish == en_passant_square\<close>
  the ownership is asked only of an occupied square, and the double advance asks
  \<open>is_occupied\<close> only when \<open>can_move_forward\<close> holds.
\<close>

fun span_pawn_captures ::
  "GameState \<Rightarrow> Player \<Rightarrow> square \<Rightarrow> int \<Rightarrow> int list \<Rightarrow> bitmap \<Rightarrow> fault + bitmap" where
  "span_pawn_captures s player start direction_modifier [] span_mask = Inr span_mask"
| "span_pawn_captures s player start direction_modifier (d # rest) span_mask =
     (let finish = start + direction_modifier * d in
      bind_result (is_occupied s finish) (\<lambda>occ.
      bind_result (if occ then bind_result (square_ownership s finish) (\<lambda>owner. Inr (owner \<noteq> player))
                   else Inr False) (\<lambda>enemy.
      span_pawn_captures s player start direction_modifier rest
        (if enemy \<or> finish = en_passant_square s then span_mask OR word_of_int finish
         else span_mask))))"

definition span_pawn :: "GameState \<Rightarrow> bitmap \<Rightarrow> square \<Rightarrow> Player \<Rightarrow> fault + bitmap" where
  "span_pawn s u start player =
     bind_result (assert_piece_on s player PAWN start) (\<lambda>_.
     let direction_modifier = (if player = WHITE then 1 else -1);
         finish = start + direction_modifier * 8 in
     bind_result (is_occupied s finish) (\<lambda>occ.
     let span_mask = (if \<not> occ then u OR word_of_int finish else u);
         can_move_forward = \<not> occ in
     bind_result (span_pawn_captures s player start direction_modifier [7, 9] span_mask)
       (\<lambda>span_mask.
     if (player = WHITE \<and> start \<ge> 8 \<and> start < 16) \<or> (player = BLACK \<and> start \<ge> 48 \<and> start < 56)
     then (let finish = start + direction_modifier * 16 in
           if can_move_forward
           then bind_result (is_occupied s finish) (\<lambda>occ2.
                  Inr (if \<not> occ2 then span_mask OR word_of_int finish else span_mask))
           else Inr span_mask)
     else Inr span_mask)))"

text \<open>
  \<open>span_jumping\<close>: the loop reads \<open>direction_offset[0..7]\<close>; both tables it is called with
  have eight entries.
\<close>

fun span_jumping_loop ::
  "GameState \<Rightarrow> Player \<Rightarrow> square \<Rightarrow> int list \<Rightarrow> bitmap \<Rightarrow> fault + bitmap" where
  "span_jumping_loop s player start [] span_mask = Inr span_mask"
| "span_jumping_loop s player start (d # rest) span_mask =
     (let current = start + d in
      if current \<ge> 0 \<and> current \<le> 63
      then bind_result (is_occupied s current) (\<lambda>occ.
           bind_result (if \<not> occ then Inr True
                        else bind_result (square_ownership s current) (\<lambda>owner. Inr (owner \<noteq> player)))
             (\<lambda>ok.
           if ok then bind_result (shl1 current) (\<lambda>b.
                        span_jumping_loop s player start rest (span_mask OR b))
           else span_jumping_loop s player start rest span_mask))
      else span_jumping_loop s player start rest span_mask)"

definition span_jumping ::
  "GameState \<Rightarrow> bitmap \<Rightarrow> square \<Rightarrow> Player \<Rightarrow> int list \<Rightarrow> Piece \<Rightarrow> fault + bitmap" where
  "span_jumping s u start player direction_offset piece_type =
     bind_result (assert_piece_on s player piece_type start) (\<lambda>_.
       span_jumping_loop s player start (take 8 direction_offset) u)"

definition span_king :: "GameState \<Rightarrow> bitmap \<Rightarrow> square \<Rightarrow> Player \<Rightarrow> fault + bitmap" where
  "span_king s u start player = span_jumping s u start player [-1, 7, 8, 9, 1, -7, -8, -9] KING"

definition span_knight :: "GameState \<Rightarrow> bitmap \<Rightarrow> square \<Rightarrow> Player \<Rightarrow> fault + bitmap" where
  "span_knight s u start player =
     span_jumping s u start player [6, 15, 17, 10, -6, -15, -17, -10] KNIGHT"

text \<open>
  \<open>span_sliding\<close>: the inner \<open>while (true)\<close> walks one direction. It only ever adds the
  first occupied square, when an enemy owns it. With a zero offset on an empty square it
  would not end, hence the \<open>option\<close>.
\<close>

partial_function (option) span_sliding_ray ::
  "GameState \<Rightarrow> Player \<Rightarrow> int \<Rightarrow> square \<Rightarrow> bitmap \<Rightarrow> (fault + bitmap) option" where
  "span_sliding_ray s player d current span_mask =
     (let current = current + d in
      if current < 0 \<or> current > 63 then Some (Inr span_mask)
      else bind_outcome (Some (is_occupied s current)) (\<lambda>occ.
           if occ
           then bind_outcome (Some (square_ownership s current)) (\<lambda>owner.
                  if owner \<noteq> player
                  then bind_outcome (Some (shl1 current)) (\<lambda>b. Some (Inr (span_mask OR b)))
                  else Some (Inr span_mask))
           else span_sliding_ray s player d current span_mask))"

declare span_sliding_ray.simps [code]

fun span_sliding_loop ::
  "GameState \<Rightarrow> Player \<Rightarrow> square \<Rightarrow> int list \<Rightarrow> bitmap \<Rightarrow> (fault + bitmap) option" where
  "span_sliding_loop s player start [] span_mask = Some (Inr span_mask)"
| "span_sliding_loop s player start (d # rest) span_mask =
     bind_outcome (span_sliding_ray s player d start span_mask)
       (\<lambda>span_mask. span_sliding_loop s player start rest span_mask)"

definition span_sliding ::
  "GameState \<Rightarrow> bitmap \<Rightarrow> square \<Rightarrow> Player \<Rightarrow> int list \<Rightarrow> Piece \<Rightarrow> (fault + bitmap) option" where
  "span_sliding s u start player direction_offset piece_type =
     bind_outcome (Some (assert_piece_on s player piece_type start)) (\<lambda>_.
       let num_directions = (if piece_type = QUEEN then 8 else 4) in
       span_sliding_loop s player start (take num_directions direction_offset) u)"

definition span_queen :: "GameState \<Rightarrow> bitmap \<Rightarrow> square \<Rightarrow> Player \<Rightarrow> (fault + bitmap) option" where
  "span_queen s u start player =
     span_sliding s u start player [-1, 7, 8, 9, 1, -7, -8, -9] QUEEN"

definition span_rook :: "GameState \<Rightarrow> bitmap \<Rightarrow> square \<Rightarrow> Player \<Rightarrow> (fault + bitmap) option" where
  "span_rook s u start player = span_sliding s u start player [-1, 8, 1, -8] ROOK"

definition span_bishop :: "GameState \<Rightarrow> bitmap \<Rightarrow> square \<Rightarrow> Player \<Rightarrow> (fault + bitmap) option" where
  "span_bishop s u start player = span_sliding s u start player [7, 9, -7, -9] BISHOP"

text \<open>
  \<open>span\<close>: its assertion reads \<open>pieces[to_move][piece_type]\<close>, the side to move of the
  position, whatever \<open>player\<close> is.
\<close>

definition span ::
  "GameState \<Rightarrow> bitmap \<Rightarrow> square \<Rightarrow> Player \<Rightarrow> Piece \<Rightarrow> (fault + bitmap) option" where
  "span s u start player piece_type =
     bind_outcome (Some (assert_piece_on s (to_move s) piece_type start)) (\<lambda>_.
       case piece_type of
         KING \<Rightarrow> Some (span_king s u start player)
       | QUEEN \<Rightarrow> span_queen s u start player
       | ROOK \<Rightarrow> span_rook s u start player
       | BISHOP \<Rightarrow> span_bishop s u start player
       | KNIGHT \<Rightarrow> Some (span_knight s u start player)
       | PAWN \<Rightarrow> Some (span_pawn s u start player))"

section \<open>Attack map\<close>

definition attacking_pawn :: "GameState \<Rightarrow> square \<Rightarrow> Player \<Rightarrow> fault + bitmap" where
  "attacking_pawn s start player =
     bind_result (assert_piece_on s player PAWN start) (\<lambda>_.
     let direction_modifier = (if player = WHITE then 1 else -1) in
     bind_result (shl1 (start + direction_modifier * 7)) (\<lambda>a.
     bind_result (shl1 (start + direction_modifier * 9)) (\<lambda>b. Inr (a OR b))))"

definition attacking ::
  "GameState \<Rightarrow> bitmap \<Rightarrow> square \<Rightarrow> Player \<Rightarrow> Piece \<Rightarrow> (fault + bitmap) option" where
  "attacking s u start player piece =
     (if piece \<noteq> PAWN then span s u start player piece
      else Some (attacking_pawn s start player))"

text \<open>
  \<open>get_attack_map\<close>: the inner \<open>while (piece_locations > 0)\<close>, the outer loop over the
  kinds, and then the closing brace: the function is declared to return \<open>square\<close> and has
  no \<open>return\<close> statement.
\<close>

partial_function (option) get_attack_map_while ::
  "GameState \<Rightarrow> bitmap \<Rightarrow> Player \<Rightarrow> Piece \<Rightarrow> bitmap \<Rightarrow> bitmap \<Rightarrow> (fault + bitmap) option" where
  "get_attack_map_while s u player piece_type piece_locations attack_map =
     (if piece_locations > 0
      then (let start = get_lowest_bit piece_locations in
            bind_outcome (attacking s u start player piece_type) (\<lambda>piece_attack.
            bind_outcome (Some (shl1 start)) (\<lambda>b.
              get_attack_map_while s u player piece_type (piece_locations XOR b)
                (attack_map OR piece_attack))))
      else Some (Inr attack_map))"

declare get_attack_map_while.simps [code]

fun get_attack_map_for ::
  "GameState \<Rightarrow> bitmap \<Rightarrow> Player \<Rightarrow> Piece list \<Rightarrow> bitmap \<Rightarrow> (fault + bitmap) option" where
  "get_attack_map_for s u player [] attack_map = Some (Inr attack_map)"
| "get_attack_map_for s u player (piece_type # rest) attack_map =
     bind_outcome
       (get_attack_map_while s u player piece_type (pieces s player piece_type) attack_map)
       (\<lambda>attack_map. get_attack_map_for s u player rest attack_map)"

definition get_attack_map :: "GameState \<Rightarrow> bitmap \<Rightarrow> Player \<Rightarrow> (fault + square) option" where
  "get_attack_map s u player =
     bind_outcome (get_attack_map_for s u player all_pieces 0)
       (\<lambda>attack_map. Some (Inl MissingReturn))"

section \<open>Move transitions\<close>

text \<open>
  The call \<open>GameState(to_move, (bitmap **) pieces, half_move_counter, can_castle_king_side,
  can_castle_queen_side, en_passant_square)\<close> that ends each \<open>transform\<close>: whatever the
  six arguments are, the constructor reads its masks through the miscast pointer.
\<close>

definition GameState_from_cast ::
  "Player \<Rightarrow> (Player \<Rightarrow> Piece \<Rightarrow> bitmap) \<Rightarrow> 32 word \<Rightarrow> (Player \<Rightarrow> bool) \<Rightarrow> (Player \<Rightarrow> bool)
     \<Rightarrow> square \<Rightarrow> fault + GameState" where
  "GameState_from_cast new_to_move pcs hmc ccks ccqs eps = Inl InvalidPointerRead"

text \<open>\<open>state.half_move_counter + 1\<close> on \<open>int\<close>.\<close>

definition increment_int :: "32 word \<Rightarrow> fault + 32 word" where
  "increment_int x = (if sint x = 2147483647 then Inl SignedOverflow else Inr (x + 1))"

text \<open>
  \<open>NormalMove::transform\<close>. All three transitions read the mover from
  \<open>state.to_move\<close>; the \<open>to_move\<close> stored in the move is not consulted.
\<close>

definition NormalMove_transform ::
  "square \<Rightarrow> square \<Rightarrow> Piece \<Rightarrow> bool \<Rightarrow> GameState \<Rightarrow> fault + GameState" where
  "NormalMove_transform start finish piece is_capture state =
     (let mover = to_move state; other = opponent mover in
      bind_result
        (if is_capture
         then bind_result (shl1 finish) (\<lambda>b.
                Inr ((pieces state)(other := (\<lambda>i. pieces state other i AND NOT b))))
         else Inr (pieces state)) (\<lambda>pcs.
      bind_result (shl1 start) (\<lambda>bs.
      bind_result (shl1 finish) (\<lambda>bf.
      let pcs = pcs(mover := (pcs mover)(piece := pcs mover piece XOR bs));
          pcs = pcs(mover := (pcs mover)(piece := pcs mover piece OR bf)) in
      bind_result
        (if is_capture \<or> piece = PAWN then Inr 0
         else increment_int (half_move_counter state)) (\<lambda>hmc.
      let king_side_rook_square = (if mover = WHITE then 7 else 63 :: nat);
          queen_side_rook_square = (if mover = WHITE then 0 else 56 :: nat);
          ccks = (if pcs mover ROOK AND push_bit king_side_rook_square 1 = 0
                  then (can_castle_king_side state)(mover := False)
                  else can_castle_king_side state);
          ccqs = (if pcs mover ROOK AND push_bit queen_side_rook_square 1 = 0
                  then (can_castle_queen_side state)(mover := False)
                  else can_castle_queen_side state);
          eps = (if piece = PAWN \<and> \<bar>finish - start\<bar> = 16 then min start finish + 8
                 else INVALID_SQUARE)
      in GameState_from_cast other pcs hmc ccks ccqs eps)))))"

text \<open>\<open>PromotionMove::transform\<close>; its \<open>assert(piece == Piece::PAWN)\<close> holds by construction.\<close>

definition PromotionMove_transform ::
  "square \<Rightarrow> square \<Rightarrow> Piece \<Rightarrow> GameState \<Rightarrow> fault + GameState" where
  "PromotionMove_transform start finish promoted_piece state =
     (let mover = to_move state in
      bind_result (shl1 start) (\<lambda>bs.
      bind_result (shl1 finish) (\<lambda>bf.
      let pcs = pieces state;
          pcs = pcs(mover := (pcs mover)(PAWN := pcs mover PAWN XOR bs));
          pcs = pcs(mover := (pcs mover)(promoted_piece := pcs mover promoted_piece OR bf))
      in GameState_from_cast (opponent mover) pcs 0 (can_castle_king_side state)
           (can_castle_queen_side state) INVALID_SQUARE)))"

text \<open>
  \<open>CastlingMove::transform\<close>: the assertion on the right of the chosen wing, the four
  updates of the king and rook masks, the counter, the two rights of the mover cleared.
\<close>

definition CastlingMove_transform :: "CastlingVariant \<Rightarrow> GameState \<Rightarrow> fault + GameState" where
  "CastlingMove_transform variant state =
     (let mover = to_move state;
          king_square = (if mover = WHITE then 4 else 60 :: nat) in
      bind_result
        (if variant = KING_SIDE
         then (if can_castle_king_side state mover
               then (let rook_square = (if mover = WHITE then 7 else 63 :: nat) in
                     Inr (rook_square, king_square + 2, rook_square - 2))
               else Inl AssertionFailure)
         else (if can_castle_queen_side state mover
               then (let rook_square = (if mover = WHITE then 0 else 56 :: nat) in
                     Inr (rook_square, king_square - 2, rook_square + 3))
               else Inl AssertionFailure))
        (\<lambda>(rook_square, new_king_square, new_rook_square).
      let pcs = pieces state;
          pcs = pcs(mover := (pcs mover)(KING := pcs mover KING XOR push_bit king_square 1));
          pcs = pcs(mover := (pcs mover)(KING := pcs mover KING OR push_bit new_king_square 1));
          pcs = pcs(mover := (pcs mover)(ROOK := pcs mover ROOK XOR push_bit rook_square 1));
          pcs = pcs(mover := (pcs mover)(ROOK := pcs mover ROOK OR push_bit new_rook_square 1))
      in bind_result (increment_int (half_move_counter state)) (\<lambda>hmc.
           GameState_from_cast (opponent mover) pcs hmc
             ((can_castle_king_side state)(mover := False))
             ((can_castle_queen_side state)(mover := False)) INVALID_SQUARE)))"

text \<open>The virtual call \<open>move->transform(state)\<close>.\<close>

fun transform :: "Move \<Rightarrow> GameState \<Rightarrow> fault + GameState" where
  "transform (NormalMove start finish piece mv_to_move is_capture) state =
     NormalMove_transform start finish piece is_capture state"
| "transform (PromotionMove start finish mv_to_move promoted_piece) state =
     PromotionMove_transform start finish promoted_piece state"
| "transform (CastlingMove variant mv_to_move) state = CastlingMove_transform variant state"

section \<open>Legality filter and enumerator\<close>

text \<open>
  \<open>get_attack_map\<close> is declared to return \<open>square\<close>; its callers store the result in a
  \<open>bitmap\<close>, which is the conversion \<open>word_of_int\<close>.
\<close>

definition in_check_after_move :: "GameState \<Rightarrow> bitmap \<Rightarrow> Move \<Rightarrow> (fault + bool) option" where
  "in_check_after_move s u move =
     bind_outcome (Some (transform move s)) (\<lambda>new_state.
     bind_outcome (get_attack_map new_state u (opponent (to_move s))) (\<lambda>r.
     let attack_map = (word_of_int r :: bitmap);
         king_position = get_king_position new_state (to_move s) in
     bind_outcome (Some (shl1 king_position)) (\<lambda>b. Some (Inr (attack_map AND b \<noteq> 0)))))"

text \<open>
  The castling tests. \<open>king_side_squares\<close> and \<open>queen_side_squares\<close> are the two locals
  \<open>(in_between_squares, passing_squares)\<close> as the \<open>if (to_move == Player::WHITE)\<close>
  assigns them. The attack map is asked for before the three \<open>if ... return false\<close> lines.
\<close>

definition king_side_squares :: "Player \<Rightarrow> bitmap \<times> bitmap" where
  "king_side_squares mover =
     (if mover = WHITE
      then (push_bit 5 1 OR push_bit 6 1, push_bit 4 1 OR push_bit 5 1 OR push_bit 6 1)
      else (push_bit 61 1 OR push_bit 62 1, push_bit 60 1 OR push_bit 61 1))"

definition queen_side_squares :: "Player \<Rightarrow> bitmap \<times> bitmap" where
  "queen_side_squares mover =
     (if mover = WHITE
      then (push_bit 1 1 OR push_bit 2 1 OR push_bit 3 1, push_bit 2 1 OR push_bit 3 1 OR push_bit 4 1)
      else (push_bit 57 1 OR push_bit 58 1 OR push_bit 59 1,
            push_bit 58 1 OR push_bit 59 1 OR push_bit 60 1))"

definition king_side_castling_conditions_satisfied ::
  "GameState \<Rightarrow> bitmap \<Rightarrow> (fault + bool) option" where
  "king_side_castling_conditions_satisfied s u =
     (let (in_between_squares, passing_squares) = king_side_squares (to_move s) in
      bind_outcome (get_attack_map s u (opponent (to_move s))) (\<lambda>r.
      let attack_map = (word_of_int r :: bitmap);
          occupancy_map = get_occupancy_map s in
      Some (Inr (if passing_squares AND attack_map \<noteq> 0 then False
                 else if in_between_squares AND occupancy_map \<noteq> 0 then False
                 else if \<not> can_castle_king_side s (to_move s) then False
                 else True))))"

definition queen_side_castling_conditions_satisfied ::
  "GameState \<Rightarrow> bitmap \<Rightarrow> (fault + bool) option" where
  "queen_side_castling_conditions_satisfied s u =
     (let (in_between_squares, passing_squares) = queen_side_squares (to_move s) in
      bind_outcome (get_attack_map s u (opponent (to_move s))) (\<lambda>r.
      let attack_map = (word_of_int r :: bitmap);
          occupancy_map = get_occupancy_map s in
      Some (Inr (if passing_squares AND attack_map \<noteq> 0 then False
                 else if in_between_squares AND occupancy_map \<noteq> 0 then False
                 else if \<not> can_castle_queen_side s (to_move s) then False
                 else True))))"

text \<open>
  \<open>get_valid_moves\<close>. \<open>normal_candidate\<close> is the \<open>else\<close> branch up to the construction of
  \<open>candidate_move\<close>; the promotion branch is the loop over the four kinds. The span loop
  ends with \<open>piece_span ^= finish\<close> and the location loop with
  \<open>piece_locations ^= (1ULL << start)\<close>.
\<close>

definition normal_candidate :: "GameState \<Rightarrow> square \<Rightarrow> square \<Rightarrow> Piece \<Rightarrow> fault + Move" where
  "normal_candidate s start finish piece_type =
     bind_result (is_occupied s finish) (\<lambda>is_capture.
       Inr (NormalMove start finish piece_type (to_move s) is_capture))"

fun get_valid_moves_promotions ::
  "GameState \<Rightarrow> bitmap \<Rightarrow> square \<Rightarrow> square \<Rightarrow> Piece list \<Rightarrow> Move list \<Rightarrow> (fault + Move list) option"
  where
  "get_valid_moves_promotions s u start finish [] valid_moves = Some (Inr valid_moves)"
| "get_valid_moves_promotions s u start finish (promoted_piece # rest) valid_moves =
     (let promotion_move = PromotionMove start finish (to_move s) promoted_piece in
      bind_outcome (in_check_after_move s u promotion_move) (\<lambda>chk.
        get_valid_moves_promotions s u start finish rest
          (if \<not> chk then valid_moves @ [promotion_move] else valid_moves)))"

partial_function (option) get_valid_moves_span_while ::
  "GameState \<Rightarrow> bitmap \<Rightarrow> square \<Rightarrow> Piece \<Rightarrow> bitmap \<Rightarrow> Move list \<Rightarrow> (fault + Move list) option"
  where
  "get_valid_moves_span_while s u start piece_type piece_span valid_moves =
     (if piece_span > 0
      then (let finish = get_lowest_bit piece_span in
            bind_outcome
              (if piece_type = PAWN \<and> (finish < 8 \<or> finish \<ge> 56)
               then get_valid_moves_promotions s u start finish [QUEEN, ROOK, BISHOP, KNIGHT]
                      valid_moves
               else bind_outcome (Some (normal_candidate s start finish piece_type))
                      (\<lambda>candidate_move.
                    bind_outcome (in_check_after_move s u candidate_move) (\<lambda>chk.
                      Some (Inr (if \<not> chk then valid_moves @ [candidate_move]
                                 else valid_moves)))))
              (\<lambda>valid_moves.
                 get_valid_moves_span_while s u start piece_type
                   (piece_span XOR word_of_int finish) valid_moves))
      else Some (Inr valid_moves))"

declare get_valid_moves_span_while.simps [code]

partial_function (option) get_valid_moves_while ::
  "GameState \<Rightarrow> bitmap \<Rightarrow> Piece \<Rightarrow> bitmap \<Rightarrow> Move list \<Rightarrow> (fault + Move list) option"
  where
  "get_valid_moves_while s u piece_type piece_locations valid_moves =
     (if piece_locations > 0
      then (let start = get_lowest_bit piece_locations in
            bind_outcome (span s u start (to_move s) piece_type) (\<lambda>piece_span.
            bind_outcome (get_valid_moves_span_while s u start piece_type piece_span valid_moves)
              (\<lambda>valid_moves.
            bind_outcome (Some (shl1 start)) (\<lambda>b.
              get_valid_moves_while s u piece_type (piece_locations XOR b) valid_moves))))
      else Some (Inr valid_moves))"

declare get_valid_moves_while.simps [code]

fun get_valid_moves_for ::
  "GameState \<Rightarrow> bitmap \<Rightarrow> Piece list \<Rightarrow> Move list \<Rightarrow> (fault + Move list) option" where
  "get_valid_moves_for s u [] valid_moves = Some (Inr valid_moves)"
| "get_valid_moves_for s u (piece_type # rest) valid_moves =
     bind_outcome
       (get_valid_moves_while s u piece_type (pieces s (to_move s) piece_type) valid_moves)
       (\<lambda>valid_moves. get_valid_moves_for s u rest valid_moves)"

definition get_valid_moves :: "GameState \<Rightarrow> bitmap \<Rightarrow> (fault + Move list) option" where
  "get_valid_moves s u =
     bind_outcome (get_valid_moves_for s u all_pieces []) (\<lambda>valid_moves.
     bind_outcome (king_side_castling_conditions_satisfied s u) (\<lambda>ks.
     let valid_moves =
           (if ks then valid_moves @ [CastlingMove KING_SIDE (to_move s)] else valid_moves) in
     bind_outcome (queen_side_castling_conditions_satisfied s u) (\<lambda>qs.
       Some (Inr (if qs then valid_moves @ [CastlingMove QUEEN_SIDE (to_move s)]
                  else valid_moves)))))"

section \<open>Terminal-state queries\<close>

definition is_check :: "GameState \<Rightarrow> bitmap \<Rightarrow> (fault + bool) option" where
  "is_check s u =
     bind_outcome (get_attack_map s u (opponent (to_move s))) (\<lambda>r.
     let attack_map = (word_of_int r :: bitmap);
         king_position = get_king_position s (to_move s) in
     bind_outcome (Some (shl1 king_position)) (\<lambda>b. Some (Inr (attack_map AND b \<noteq> 0))))"

text \<open>\<open>no_valid_moves\<close> is \<open>return !get_valid_moves().empty();\<close>.\<close>

definition no_valid_moves :: "GameState \<Rightarrow> bitmap \<Rightarrow> (fault + bool) option" where
  "no_valid_moves s u =
     bind_outcome (get_valid_moves s u) (\<lambda>valid_moves. Some (Inr (\<not> (valid_moves = []))))"

text \<open>\<open>is_check() && no_valid_moves()\<close> and \<open>!is_check() && no_valid_moves()\<close>, short-circuit.\<close>

definition is_checkmate :: "GameState \<Rightarrow> bitmap \<Rightarrow> (fault + bool) option" where
  "is_checkmate s u =
     bind_outcome (is_check s u) (\<lambda>c. if c then no_valid_moves s u else Some (Inr False))"

definition is_stalemate :: "GameState \<Rightarrow> bitmap \<Rightarrow> (fault + bool) option" where
  "is_stalemate s u =
     bind_outcome (is_check s u) (\<lambda>c. if \<not> c then no_valid_moves s u else Some (Inr False))"

section \<open>The default constructor\<close>

fun initial_pieces :: "Player \<Rightarrow> Piece \<Rightarrow> bitmap" where
  "initial_pieces WHITE KING = push_bit 4 1"
| "initial_pieces BLACK KING = push_bit 60 1"
| "initial_pieces WHITE QUEEN = push_bit 3 1"
| "initial_pieces BLACK QUEEN = push_bit 59 1"
| "initial_pieces WHITE ROOK = push_bit 0 1 OR push_bit 7 1"
| "initial_pieces BLACK ROOK = push_bit 56 1 OR push_bit 63 1"
| "initial_pieces WHITE BISHOP = push_bit 2 1 OR push_bit 5 1"
| "initial_pieces BLACK BISHOP = push_bit 58 1 OR push_bit 61 1"
| "initial_pieces WHITE KNIGHT = push_bit 1 1 OR push_bit 6 1"
| "initial_pieces BLACK KNIGHT = push_bit 57 1 OR push_bit 62 1"
| "initial_pieces WHITE PAWN = fold (\<lambda>i m. m OR push_bit i 1) [8 ..< 16] 0"
| "initial_pieces BLACK PAWN = fold (\<lambda>i m. m OR push_bit (63 - i) 1) [8 ..< 16] 0"

definition initial_GameState :: GameState where
  "initial_GameState =
     \<lparr>to_move = WHITE, pieces = initial_pieces, half_move_counter = 0,
      can_castle_king_side = (\<lambda>_. True), can_castle_queen_side = (\<lambda>_. True),
      en_passant_square = INVALID_SQUARE\<rparr>"

section \<open>Example positions\<close>

text \<open>
  Black to move with king e8 (60) and rook h8 (63) at home, f8 and g8 empty, the king-side
  right kept; White has only its king, on e1 (4), so that no square of the eighth rank is
  attacked. By the rules Black may castle king-side here.
\<close>

fun black_castling_pieces :: "Player \<Rightarrow> Piece \<Rightarrow> bitmap" where
  "black_castling_pieces BLACK KING = push_bit 60 1"
| "black_castling_pieces BLACK ROOK = push_bit 63 1"
| "black_castling_pieces WHITE KING = push_bit 4 1"
| "black_castling_pieces _ _ = 0"

definition black_castling_position :: GameState where
  "black_castling_position =
     \<lparr>to_move = BLACK, pieces = black_castling_pieces, half_move_counter = 0,
      can_castle_king_side = (\<lambda>_. True), can_castle_queen_side = (\<lambda>_. False),
      en_passant_square = INVALID_SQUARE\<rparr>"

text \<open>
  White to move: king h1 (7), rook h2 (15); Black: king e8 (60), pawn a3 (16).
\<close>

fun edge_pieces :: "Player \<Rightarrow> Piece \<Rightarrow> bitmap" where
  "edge_pieces WHITE KING = push_bit 7 1"
| "edge_pieces WHITE ROOK = push_bit 15 1"
| "edge_pieces BLACK KING = push_bit 60 1"
| "edge_pieces BLACK PAWN = push_bit 16 1"
| "edge_pieces _ _ = 0"

definition edge_position :: GameState where
  "edge_position =
     \<lparr>to_move = WHITE, pieces = edge_pieces, half_move_counter = 0,
      can_castle_king_side = (\<lambda>_. False), can_castle_queen_side = (\<lambda>_. False),
      en_passant_square = INVALID_SQUARE\<rparr>"

section \<open>Basic facts about outcomes and bit tests\<close>

lemma bind_result_simps [simp]:
  "bind_result (Inl e) f = Inl e"
  "bind_result (Inr v) f = f v"
  by (simp_all add: bind_result_def)

lemma bind_outcome_simps [simp]:
  "bind_outcome None g = None"
  "bind_outcome (Some (Inl e)) g = Some (Inl e)"
  "bind_outcome (Some (Inr v)) g = g v"
  by (simp_all add: bind_outcome_def)

lemma bind_result_eq_Inr:
  "bind_result m f = Inr y \<longleftrightarrow> (\<exists>v. m = Inr v \<and> f v = Inr y)"
  by (cases m) simp_all

lemma bind_outcome_eq_Some_Inr:
  "bind_outcome m g = Some (Inr y) \<longleftrightarrow> (\<exists>v. m = Some (Inr v) \<and> g v = Some (Inr y))"
  unfolding bind_outcome_def by (cases m) (auto split: sum.splits)

lemma shl1_in_range [simp]: "0 \<le> q \<Longrightarrow> q < 64 \<Longrightarrow> shl1 q = Inr (push_bit (nat q) 1)"
  by (simp add: shl1_def)

lemma and_bit_zero_iff: "(w :: bitmap) AND push_bit n 1 = 0 \<longleftrightarrow> \<not> bit w n"
  by (simp add: bit_iff_and_push_bit_not_eq_0)

lemma in_all_pieces [simp]: "k \<in> set all_pieces"
  by (cases k) (simp_all add: all_pieces_def)

lemma Player_cases_ex: "(\<exists>p. P p) \<longleftrightarrow> P WHITE \<or> P BLACK"
  by (metis Player.exhaust)

lemma square_ownership_loop_raises:
  "square_ownership_loop s b ps = Inl e \<longleftrightarrow>
     e = LogicError \<and> (\<forall>i\<in>set ps. pieces s WHITE i AND b = 0 \<and> pieces s BLACK i AND b = 0)"
  by (induction ps) auto

lemma square_ownership_loop_owner:
  "square_ownership_loop s b ps = Inr p \<Longrightarrow> \<exists>i\<in>set ps. pieces s p i AND b \<noteq> 0"
  by (induction ps) (auto split: if_splits)

lemma is_occupied_loop_iff:
  "is_occupied_loop s b ps \<longleftrightarrow>
     (\<exists>i\<in>set ps. pieces s WHITE i AND b \<noteq> 0 \<or> pieces s BLACK i AND b \<noteq> 0)"
  by (induction ps) auto

lemma is_occupied_iff:
  "0 \<le> q \<Longrightarrow> q < 64 \<Longrightarrow> is_occupied s q = Inr (\<exists>p k. bit (pieces s p k) (nat q))"
  by (auto simp: is_occupied_def is_occupied_loop_iff and_bit_zero_iff Player_cases_ex
      simp del: push_bit_of_1)

section \<open>The lowest-set-bit scan\<close>

lemma get_lowest_bit_loop_power:
  "k < 64 \<Longrightarrow> get_lowest_bit_loop (push_bit k 1) n = n + int k + 1"
proof (induction k arbitrary: n)
  case 0
  show ?case by (simp add: get_lowest_bit_loop.simps [of 1] get_lowest_bit_loop.simps [of 0])
next
  case (Suc k)
  define p :: bitmap where "p = push_bit (Suc k) 1"
  have "bit p (Suc k)"
    using Suc.prems by (simp add: p_def bit_simps del: push_bit_Suc)
  then have nz: "p \<noteq> 0"
    by (metis bit_0_eq bot_apply bot_bool_def)
  have dr: "drop_bit 1 p = push_bit k 1"
    unfolding p_def using Suc.prems
    by (intro bit_eqI) (auto simp: bit_simps simp del: push_bit_Suc)
  have "get_lowest_bit_loop p n = get_lowest_bit_loop (drop_bit 1 p) (n + 1)"
    using nz by (subst get_lowest_bit_loop.simps) (simp add: word_greater_zero_iff)
  also have "\<dots> = n + 1 + int k + 1"
    unfolding dr using Suc.prems by (intro Suc.IH) simp
  finally show ?case by (simp add: p_def)
qed

lemma odd_and_neg:
  fixes a :: bitmap
  assumes "odd a"
  shows "a AND (- a) = 1"
proof -
  have "a mod 2 = 1"
    using assms by (simp add: odd_iff_mod_2_eq_one)
  then have "2 * (a div 2) + 1 = a"
    using mult_div_mod_eq [of 2 a] by simp
  then have "a - 1 = 2 * (a div 2)"
    by (simp add: algebra_simps)
  then have neg: "- a = NOT (2 * (a div 2))"
    by (simp add: minus_eq_not_minus_1)
  show ?thesis
    unfolding neg
  proof (rule bit_eqI)
    fix n
    show "bit (a AND NOT (2 * (a div 2))) n = bit (1 :: bitmap) n"
    proof (cases n)
      case 0
      have "bit a 0" using assms by (simp add: bit_0)
      then show ?thesis
        unfolding 0 bit_and_iff bit_not_iff bit_double_iff by (simp add: bit_1_iff)
    next
      case (Suc i)
      have "bit a (Suc i) = bit (a div 2) i" by (simp add: bit_Suc)
      then show ?thesis
        unfolding Suc bit_and_iff bit_not_iff bit_double_iff
        by (auto simp: bit_1_iff dest: bit_imp_possible_bit)
    qed
  qed
qed

lemma and_neg_isolates_lowest:
  fixes m :: bitmap
  assumes "bit m k" and "\<forall>j<k. \<not> bit m j"
  shows "m AND (- m) = push_bit k 1"
proof -
  have "take_bit k m = 0"
    using assms(2) by (intro bit_eqI) (simp add: bit_simps)
  then have m: "m = push_bit k (drop_bit k m)"
    using bits_ident [of k m] by simp
  have od: "odd (drop_bit k m)"
    using assms(1) by (simp add: bit_iff_odd_drop_bit)
  have "m AND (- m) = push_bit k (drop_bit k m) AND push_bit k (- drop_bit k m)"
    using m by (metis push_bit_minus)
  also have "\<dots> = push_bit k (drop_bit k m AND - drop_bit k m)"
    by (simp add: push_bit_and)
  finally show ?thesis by (simp add: odd_and_neg [OF od])
qed

lemma get_lowest_bit_eq:
  assumes "bit m k" and "\<forall>j<k. \<not> bit m j"
  shows "get_lowest_bit m = int k + 1"
proof -
  have "k < 64" using assms(1) by (auto dest: bit_imp_le_length)
  then show ?thesis
    by (simp add: get_lowest_bit_def and_neg_isolates_lowest [OF assms]
        get_lowest_bit_loop_power del: push_bit_of_1)
qed

text \<open>
  C2. The claim says that for a mask with a set bit \<open>get_lowest_bit\<close> returns the index
  \<open>k\<close> of the least-significant set bit. The loop counts one shift more than that: it
  runs until the isolated power of two has been shifted out, so the function returns
  \<open>k + 1\<close> (1 for the mask 1, 64 for the mask with only bit 63 set).
\<close>

theorem get_lowest_bit_one_past_index:
  "bit m k \<Longrightarrow> (\<forall>j<k. \<not> bit m j) \<Longrightarrow> get_lowest_bit m = int k + 1"
  by (rule get_lowest_bit_eq)

theorem get_lowest_bit_one_past_index_witness:
  "bit (1 :: bitmap) 0 \<and> get_lowest_bit 1 = 1"
  using get_lowest_bit_one_past_index [of 1 0] by (simp add: bit_1_iff)

section \<open>Ownership of a square\<close>

text \<open>
  C9. For a square \<open>q\<close> of the board (0..63), \<open>square_ownership\<close> throws its
  \<open>std::logic_error\<close> exactly when none of the twelve masks has bit \<open>q\<close> set, it fails
  in no other way, and when some mask has the bit set it returns a side one of whose masks
  has it.
\<close>

theorem square_ownership_raises_iff_unoccupied:
  assumes "0 \<le> q" and "q < 64"
  shows "(square_ownership s q = Inl LogicError \<longleftrightarrow> \<not> (\<exists>p k. bit (pieces s p k) (nat q)))
       \<and> (\<forall>e. square_ownership s q = Inl e \<longrightarrow> e = LogicError)
       \<and> ((\<exists>p k. bit (pieces s p k) (nat q)) \<longrightarrow>
            (\<exists>p. square_ownership s q = Inr p \<and> (\<exists>k. bit (pieces s p k) (nat q))))"
proof -
  let ?b = "push_bit (nat q) 1 :: bitmap"
  have so: "square_ownership s q = square_ownership_loop s ?b all_pieces"
    using assms by (simp add: square_ownership_def del: push_bit_of_1)
  have 1: "square_ownership s q = Inl LogicError \<longleftrightarrow> \<not> (\<exists>p k. bit (pieces s p k) (nat q))"
    unfolding so square_ownership_loop_raises
    by (auto simp: and_bit_zero_iff Player_cases_ex simp del: push_bit_of_1)
  have 2: "\<forall>e. square_ownership s q = Inl e \<longrightarrow> e = LogicError"
    unfolding so square_ownership_loop_raises by simp
  have 3: "(\<exists>p k. bit (pieces s p k) (nat q)) \<longrightarrow>
            (\<exists>p. square_ownership s q = Inr p \<and> (\<exists>k. bit (pieces s p k) (nat q)))"
  proof
    assume occ: "\<exists>p k. bit (pieces s p k) (nat q)"
    with 1 2 obtain p where p: "square_ownership s q = Inr p"
      by (cases "square_ownership s q") auto
    from square_ownership_loop_owner [OF p [unfolded so]]
    have "\<exists>k. bit (pieces s p k) (nat q)"
      by (auto simp: and_bit_zero_iff simp del: push_bit_of_1)
    with p show "\<exists>p. square_ownership s q = Inr p \<and> (\<exists>k. bit (pieces s p k) (nat q))"
      by blast
  qed
  from 1 2 3 show ?thesis by blast
qed

theorem square_ownership_raises_iff_unoccupied_witness:
  "(0 :: int) \<le> 4 \<and> (4 :: int) < 64
   \<and> bit (pieces initial_GameState WHITE KING) (nat 4)
   \<and> (\<exists>p. square_ownership initial_GameState 4 = Inr p
          \<and> (\<exists>k. bit (pieces initial_GameState p k) (nat 4)))"
proof -
  have h1: "(0 :: int) \<le> 4" and h2: "(4 :: int) < 64" by simp_all
  have occ: "bit (pieces initial_GameState WHITE KING) (nat 4)"
    by (simp add: initial_GameState_def bit_simps)
  from square_ownership_raises_iff_unoccupied [OF h1 h2, of initial_GameState] occ
  show ?thesis using h1 h2 by blast
qed

section \<open>The attack map\<close>

lemma get_attack_map_no_value: "get_attack_map s u player \<noteq> Some (Inr r)"
  by (simp add: get_attack_map_def bind_outcome_eq_Some_Inr)

lemma is_check_no_value: "is_check s u \<noteq> Some (Inr c)"
  by (simp add: is_check_def bind_outcome_eq_Some_Inr get_attack_map_no_value)

lemma terminal_queries_no_value:
  "is_checkmate s u \<noteq> Some (Inr b) \<and> is_stalemate s u \<noteq> Some (Inr b)"
  by (simp add: is_checkmate_def is_stalemate_def bind_outcome_eq_Some_Inr is_check_no_value)

text \<open>
  C3. The claim says that \<open>get_attack_map\<close> returns the union of the attacks of the side's
  pieces. The function accumulates into the local \<open>attack_map\<close> and then ends without a
  \<open>return\<close> statement: whatever the position and the side, no call yields a value.
\<close>

theorem get_attack_map_never_returns: "get_attack_map s u player \<noteq> Some (Inr r)"
  by (rule get_attack_map_no_value)

section \<open>Terminal-state queries on the starting position\<close>

lemma get_attack_map_while_fault:
  assumes "piece_locations \<noteq> 0"
    and "attacking s u (get_lowest_bit piece_locations) player piece_type = Some (Inl e)"
  shows "get_attack_map_while s u player piece_type piece_locations attack_map = Some (Inl e)"
  using assms by (subst get_attack_map_while.simps) (simp add: word_greater_zero_iff)

lemma get_lowest_bit_push_bit:
  "k < 64 \<Longrightarrow> get_lowest_bit (push_bit k 1) = int k + 1"
  by (rule get_lowest_bit_eq) (simp_all add: bit_simps)

lemma get_attack_map_initial_BLACK:
  "get_attack_map initial_GameState u BLACK = Some (Inl AssertionFailure)"
proof -
  have glb: "get_lowest_bit (push_bit 60 1) = 61"
    using get_lowest_bit_push_bit [of 60] by simp
  have att: "attacking initial_GameState u 61 BLACK KING = Some (Inl AssertionFailure)"
    by (simp add: attacking_def span_def assert_piece_on_def initial_GameState_def)
  have "get_attack_map_while initial_GameState u BLACK KING (push_bit 60 1) 0
          = Some (Inl AssertionFailure)"
    by (rule get_attack_map_while_fault) (simp_all only: glb att, simp)
  then show ?thesis
    by (simp add: get_attack_map_def all_pieces_def initial_GameState_def)
qed

text \<open>
  C1. The claim says that \<open>is_checkmate\<close> is true exactly when the side to move is in
  check and has no legal move, and \<open>is_stalemate\<close> exactly when it is not in check and
  has no legal move. On the starting position the claim asks for \<open>false\<close> twice. The
  code returns neither: both queries first call \<open>is_check\<close>, whose \<open>get_attack_map\<close>
  takes Black's king mask (bit 60), obtains 61 from \<open>get_lowest_bit\<close>, and fails the
  assertion of \<open>span\<close> on square 61. (On no position does either query return a value,
  \<open>terminal_queries_no_value\<close>, since \<open>get_attack_map\<close> never does. Had they returned,
  \<open>no_valid_moves\<close> would have handed them the negation of what its name says: it is
  \<open>!get_valid_moves().empty()\<close>.)
\<close>

theorem terminal_queries_abort_on_initial_position:
  "is_checkmate initial_GameState u = Some (Inl AssertionFailure) \<and>
   is_stalemate initial_GameState u = Some (Inl AssertionFailure)"
  using get_attack_map_initial_BLACK [of u]
  by (simp add: is_checkmate_def is_stalemate_def is_check_def initial_GameState_def)

section \<open>The pawn span\<close>

text \<open>
  C4. The claim says that the span of a pawn holds the single-advance square, the
  double-advance square and the capture squares. For White's a-pawn on a2 (square 8) of the
  starting position that is a3 and a4, the bits 16 and 24. The code or-s the square numbers
  16 and 24 themselves into the mask: started from an empty mask the result is the number
  24, whose set bits are 3 and 4 (d1 and e1).
\<close>

theorem span_pawn_initial_a2:
  "span_pawn initial_GameState u 8 WHITE = Inr ((u OR 16) OR 24) \<and>
   (16 :: bitmap) OR 24 = push_bit 3 1 OR push_bit 4 1"
  by (simp add: span_pawn_def assert_piece_on_def is_occupied_def all_pieces_def
      initial_GameState_def square_ownership_def INVALID_SQUARE_def shl1_def)

section \<open>Transitions and the enumerator\<close>

text \<open>
  No call of \<open>transform\<close> yields a position: each of the three bodies ends in the
  constructor call through the cast. No call of \<open>get_valid_moves\<close> yields a list of
  moves: after its loops it asks for the castling tests, whose \<open>get_attack_map\<close> yields
  no value.
\<close>

lemma transform_no_value: "transform m s \<noteq> Inr s'"
proof (cases m)
  case (NormalMove start finish piece mv_to_move is_capture)
  then show ?thesis
    by (auto simp: NormalMove_transform_def GameState_from_cast_def Let_def bind_result_eq_Inr)
next
  case (PromotionMove start finish mv_to_move promoted_piece)
  then show ?thesis
    by (auto simp: PromotionMove_transform_def GameState_from_cast_def Let_def
        bind_result_eq_Inr)
next
  case (CastlingMove variant mv_to_move)
  then show ?thesis
    by (auto simp: CastlingMove_transform_def GameState_from_cast_def Let_def
        bind_result_eq_Inr split: prod.splits)
qed

lemma king_side_castling_conditions_satisfied_no_value:
  "king_side_castling_conditions_satisfied s u \<noteq> Some (Inr b)"
  by (simp add: king_side_castling_conditions_satisfied_def bind_outcome_eq_Some_Inr
      get_attack_map_no_value split: prod.splits)

lemma get_valid_moves_no_value: "get_valid_moves s u \<noteq> Some (Inr valid_moves)"
  by (simp add: get_valid_moves_def bind_outcome_eq_Some_Inr
      king_side_castling_conditions_satisfied_no_value)

section \<open>Castling in the enumerator\<close>

lemma get_valid_moves_while_fault:
  assumes "piece_locations \<noteq> 0"
    and "span s u (get_lowest_bit piece_locations) (to_move s) piece_type = Some (Inl e)"
  shows "get_valid_moves_while s u piece_type piece_locations valid_moves = Some (Inl e)"
  using assms by (subst get_valid_moves_while.simps) (simp add: word_greater_zero_iff)

lemma get_valid_moves_black_castling_position:
  "get_valid_moves black_castling_position u = Some (Inl AssertionFailure)"
proof -
  have glb: "get_lowest_bit (push_bit 60 1) = 61"
    using get_lowest_bit_push_bit [of 60] by simp
  have sp: "span black_castling_position u 61 (to_move black_castling_position) KING
              = Some (Inl AssertionFailure)"
    by (simp add: span_def assert_piece_on_def black_castling_position_def)
  have "get_valid_moves_while black_castling_position u KING (push_bit 60 1) []
          = Some (Inl AssertionFailure)"
    by (rule get_valid_moves_while_fault) (simp_all only: glb sp, simp)
  then show ?thesis
    by (simp add: get_valid_moves_def all_pieces_def black_castling_position_def)
qed

lemma king_side_test_black_castling_position:
  "king_side_castling_conditions_satisfied black_castling_position u
     = Some (Inl AssertionFailure)"
proof -
  have glb: "get_lowest_bit (push_bit 4 1) = 5"
    using get_lowest_bit_push_bit [of 4] by simp
  have att: "attacking black_castling_position u 5 WHITE KING = Some (Inl AssertionFailure)"
    by (simp add: attacking_def span_def assert_piece_on_def black_castling_position_def)
  have "get_attack_map_while black_castling_position u WHITE KING (push_bit 4 1) 0
          = Some (Inl AssertionFailure)"
    by (rule get_attack_map_while_fault) (simp_all only: glb att, simp)
  then have "get_attack_map black_castling_position u WHITE = Some (Inl AssertionFailure)"
    by (simp add: get_attack_map_def all_pieces_def black_castling_position_def)
  then show ?thesis
    by (simp add: king_side_castling_conditions_satisfied_def black_castling_position_def
        split: prod.splits)
qed

text \<open>
  C6. The claim says that \<open>get_valid_moves\<close> includes the king-side castling move exactly
  when the mover keeps the right, the squares between king and rook are empty and no
  square the king crosses is attacked. In \<open>black_castling_position\<close> all of this holds
  for Black, so the claim asks for a list of moves that contains the castling move. The code returns
  no list: the first loop of \<open>get_valid_moves\<close> takes Black's king mask (bit 60), obtains
  61 from \<open>get_lowest_bit\<close> and fails the assertion of \<open>span\<close>. The castling test called on
  its own fails likewise, inside \<open>get_attack_map\<close>, on White's king mask (bit 4, square 5
  asked). The last two conjuncts record the squares the two branches of the test mask:
  4, 5, 6 for White, but only 60 and 61 for Black.
\<close>

theorem castling_enumeration_aborts:
  "get_valid_moves black_castling_position u = Some (Inl AssertionFailure) \<and>
   king_side_castling_conditions_satisfied black_castling_position u
     = Some (Inl AssertionFailure) \<and>
   snd (king_side_squares WHITE) = push_bit 4 1 OR push_bit 5 1 OR push_bit 6 1 \<and>
   snd (king_side_squares BLACK) = push_bit 60 1 OR push_bit 61 1"
  using get_valid_moves_black_castling_position [of u]
    king_side_test_black_castling_position [of u]
  by (simp add: king_side_squares_def)

section \<open>Spans and the edges of the board\<close>

text \<open>With a table free of zero offsets, as the three of the code are, the rays end.\<close>

lemma span_sliding_ray_terminates:
  "d \<noteq> 0 \<Longrightarrow> span_sliding_ray s player d c m0 \<noteq> None"
proof (induction "nat (if d > 0 then 63 - c else c)" arbitrary: c rule: less_induct)
  case less
  show ?case
  proof (cases "c + d < 0 \<or> 63 < c + d")
    case True
    then show ?thesis
      by (subst span_sliding_ray.simps) (simp add: Let_def)
  next
    case False
    then have rng: "0 \<le> c + d" "c + d < 64" by simp_all
    have smaller: "nat (if d > 0 then 63 - (c + d) else c + d) < nat (if d > 0 then 63 - c else c)"
      using False less.prems by auto
    have rec: "span_sliding_ray s player d (c + d) m0 \<noteq> None"
      by (rule less.hyps [OF smaller less.prems])
    have occ: "is_occupied s (c + d) = Inr (\<exists>p k. bit (pieces s p k) (nat (c + d)))"
      by (rule is_occupied_iff [OF rng])
    show ?thesis
      using False rec rng
      by (subst span_sliding_ray.simps)
        (cases "square_ownership s (c + d)"; simp add: Let_def occ del: push_bit_of_1)
  qed
qed

lemma span_sliding_loop_terminates:
  "\<forall>d\<in>set ds. d \<noteq> 0 \<Longrightarrow> span_sliding_loop s player start ds m0 \<noteq> None"
proof (induction ds arbitrary: m0)
  case Nil
  then show ?case by simp
next
  case (Cons d ds)
  from Cons.prems have d: "d \<noteq> 0" and ds: "\<forall>d\<in>set ds. d \<noteq> 0" by simp_all
  obtain r where r: "span_sliding_ray s player d start m0 = Some r"
    using span_sliding_ray_terminates [OF d, of s player start m0] by auto
  show ?case
    using Cons.IH [OF ds] by (cases r) (simp_all add: r)
qed

lemma span_sliding_terminates:
  assumes "\<forall>d\<in>set offs. d \<noteq> 0"
  shows "span_sliding s u start player offs piece \<noteq> None"
proof -
  have "\<forall>d\<in>set (take n offs). d \<noteq> 0" for n
    using assms by (auto dest: in_set_takeD)
  from span_sliding_loop_terminates [OF this]
  show ?thesis
    by (cases "assert_piece_on s player piece start") (simp_all add: span_sliding_def Let_def)
qed

lemma span_king_edge_position:
  "span_king edge_position 0 7 WHITE
     = Inr (push_bit 0 1 OR push_bit 6 1 OR push_bit 8 1 OR push_bit 14 1 OR push_bit 16 1)"
  by (simp add: span_king_def span_jumping_def assert_piece_on_def edge_position_def
      is_occupied_def square_ownership_def all_pieces_def shl1_def)

lemma span_rook_edge_position:
  "span_rook edge_position 0 15 WHITE = Some (Inr (push_bit 16 1))"
  by code_simp

text \<open>
  C5. The claim says that a span never holds a destination reached by wrapping across the
  left or right edge of the board. The code tests whether a destination is on the board,
  \<open>current >= 0 && current <= 63\<close> in \<open>span_jumping\<close> and
  \<open>if (current < 0 || current > 63) break;\<close> in \<open>span_sliding\<close>, and the test misses the
  left and right edges. In \<open>edge_position\<close>, with \<open>span_mask\<close> starting empty, the king
  on h1 (file 7) receives a1, a2 and a3 (squares 0, 8 and 16, file 0) through the offsets
  -7, +1 and +9, and the rook on h2 captures the pawn on a3 through the horizontal
  offset +1.
\<close>

theorem span_wraps_across_board_edge:
  "span_king edge_position 0 7 WHITE
     = Inr (push_bit 0 1 OR push_bit 6 1 OR push_bit 8 1 OR push_bit 14 1 OR push_bit 16 1)
   \<and> span_rook edge_position 0 15 WHITE = Some (Inr (push_bit 16 1))
   \<and> (7 :: int) mod 8 = 7 \<and> (15 :: int) mod 8 = 7
   \<and> (0 :: int) mod 8 = 0 \<and> (8 :: int) mod 8 = 0 \<and> (16 :: int) mod 8 = 0"
  using span_king_edge_position span_rook_edge_position by simp

end
